theory Spec2Isabelle
  imports Main "HOL-Library.Sublist"
begin

section \<open>gh2mg: GitHub issue comments to Mailgun mails and back\<close>

text \<open>
  A shallow embedding of \<^verbatim>\<open>main.go\<close>. The two webhook handlers and the four functions
  they call are translated one by one. What the Go program takes from its libraries is
  made explicit:
  \<^item> the package-level variables \<^verbatim>\<open>gh_cache\<close>, \<^verbatim>\<open>dryrun\<close> and \<^verbatim>\<open>kv\<close> are fields of a
    state record that every function takes and returns;
  \<^item> the remote services behind \<^verbatim>\<open>gh_client\<close> and \<^verbatim>\<open>mg\<close> are a record of functions
    (one per API method the program calls) that the handlers take as their first
    argument, and every call to one of them is appended to the state's \<open>calls\<close>;
  \<^item> \<^verbatim>\<open>log.Error\<close> appends to the state's \<open>errlog\<close>; \<^verbatim>\<open>log.Fatal\<close> ends the process
    (\<^verbatim>\<open>os.Exit(1)\<close>) and a run-time panic ends the handler: both are results of their
    own, never a HOL value left unspecified;
  \<^item> \<^verbatim>\<open>log.Info\<close>, \<^verbatim>\<open>log.Println\<close> and \<^verbatim>\<open>fmt.Println\<close> only print and are left out.
\<close>

subsection \<open>Strings: \<^verbatim>\<open>strings.Index\<close>, \<^verbatim>\<open>strings.Contains\<close> and slice expressions\<close>

text \<open>
  A Go string is a sequence of bytes, and so is a HOL \<open>string\<close>. \<^verbatim>\<open>strings.Index(s, sep)\<close>
  is the index of the first occurrence of \<open>sep\<close> in \<open>s\<close>, or \<open>-1\<close>.
\<close>

fun index_at :: "string \<Rightarrow> string \<Rightarrow> int \<Rightarrow> int" where
  "index_at [] sep n = (if sep = [] then n else - 1)"
| "index_at (c # cs) sep n = (if prefix sep (c # cs) then n else index_at cs sep (n + 1))"

definition strings_Index :: "string \<Rightarrow> string \<Rightarrow> int" where
  "strings_Index s sep = index_at s sep 0"

definition strings_Contains :: "string \<Rightarrow> string \<Rightarrow> bool" where
  "strings_Contains s substr = (0 \<le> strings_Index s substr)"

text \<open>
  The slice expressions \<^verbatim>\<open>s[lo:]\<close> and \<^verbatim>\<open>s[:hi]\<close> (the same as \<^verbatim>\<open>s[0:hi]\<close>) panic
  when the index is negative or beyond the length of \<open>s\<close>; \<open>None\<close> is the panic.
\<close>

definition slice_from :: "string \<Rightarrow> int \<Rightarrow> string option" where
  "slice_from s lo = (if 0 \<le> lo \<and> lo \<le> int (length s) then Some (drop (nat lo) s) else None)"

definition slice_to :: "string \<Rightarrow> int \<Rightarrow> string option" where
  "slice_to s hi = (if 0 \<le> hi \<and> hi \<le> int (length s) then Some (take (nat hi) s) else None)"

subsection \<open>The webhook payload\<close>

record gh_user =
  user_Login :: string
  user_Url :: string
  user_ID :: int

record gh_issue =
  issue_ID :: int
  issue_Number :: int
  issue_Title :: string
  issue_User :: gh_user
  issue_State :: string
  issue_Body :: string

record gh_comment =
  comment_User :: gh_user
  comment_Body :: string
  comment_ID :: int

record gh_owner =
  owner_Login :: string

record gh_repository =
  repository_Name :: string
  repository_Owner :: gh_owner

record payload =
  Action :: string
  Issue :: gh_issue
  Comment :: gh_comment
  Repository :: gh_repository

subsection \<open>The key/value store, the remote services and the state\<close>

text \<open>
  \<^verbatim>\<open>kv\<close> is a handle of the library \<^verbatim>\<open>github.com/tadvi/rkv\<close>, a persistent map from
  string keys to encoded values; the program only ever stores and reads \<^verbatim>\<open>int\<close>s.
  The library is modelled by the contract of the three methods the program calls:
  \<^verbatim>\<open>GetKeys("", -1)\<close> lists every key, \<^verbatim>\<open>Get\<close> fails on a key that is not stored, and
  \<^verbatim>\<open>Put\<close> stores the value under the key, whether or not the key is stored already.
  The store is an association list with one pair per key; nothing below depends on the
  order of the keys.
\<close>

type_synonym kvstore = "(string \<times> int) list"

definition rkv_GetKeys :: "kvstore \<Rightarrow> string list" where
  "rkv_GetKeys store = map fst store"

definition rkv_Get :: "kvstore \<Rightarrow> string \<Rightarrow> int option" where
  "rkv_Get store key = map_of store key"

fun rkv_Put :: "kvstore \<Rightarrow> string \<Rightarrow> int \<Rightarrow> kvstore" where
  "rkv_Put [] key v = [(key, v)]"
| "rkv_Put ((k, w) # store) key v =
     (if k = key then (key, v) # store else (k, w) # rkv_Put store key v)"

text \<open>A call of a remote service returns an error or a value.\<close>

datatype 'a result = Err string | Ok 'a

record mail =
  mail_from :: string
  mail_subject :: string
  mail_text :: string
  mail_to :: string

text \<open>
  The four API methods the program calls. \<^verbatim>\<open>Users.Get\<close> returns a user whose
  \<^verbatim>\<open>Name\<close> is a pointer, \<open>None\<close> when the user has set no name. \<^verbatim>\<open>Send\<close> returns the
  identifier of the message. The repository is given by owner and name.
\<close>

record providers =
  Users_Get :: "string \<Rightarrow> string option result"
  Mg_Send :: "mail \<Rightarrow> string result"
  Issues_Get :: "string \<Rightarrow> string \<Rightarrow> int \<Rightarrow> unit result"
  Issues_CreateComment :: "string \<Rightarrow> string \<Rightarrow> int \<Rightarrow> string \<Rightarrow> unit result"

datatype call =
    Call_Users_Get string
  | Call_Mg_Send mail
  | Call_Issues_Get string string int
  | Call_Issues_CreateComment string string int string

datatype log_error =
    Error_provider string
  | Error_event_not_supported string
  | Error_only_json
  | Error_read_body string
  | Error_unmarshal string
  | Error_response_nil

text \<open>
  \<open>gh_cache\<close> holds the entries of the cache that have not expired when the request
  arrives. \<open>kv\<close> is the pointer \<^verbatim>\<open>*rkv.Rkv\<close>: \<open>None\<close> is the nil pointer, on which
  every method of the store panics.
\<close>

record state =
  gh_cache :: "string \<rightharpoonup> string"
  dryrun :: bool
  kv :: "kvstore option"
  calls :: "call list"
  errlog :: "log_error list"

text \<open>How a function ends: it returns, it panics, or \<^verbatim>\<open>log.Fatal\<close> ends the process.\<close>

datatype 'a ret = Return 'a | Panic | Fatal

text \<open>
  How a handler ends: with a response (status and body), with a panic (the HTTP
  server recovers it and drops the connection; nothing is answered), or with the end
  of the process.
\<close>

datatype outcome = Response nat string | Handler_Panic | Process_Exit

subsection \<open>\<^verbatim>\<open>getNameForUser\<close>\<close>

definition getNameForUser :: "providers \<Rightarrow> string \<Rightarrow> state \<Rightarrow> string ret \<times> state" where
  "getNameForUser env username g =
     (case gh_cache g username of
        Some human_name \<Rightarrow> (Return human_name, g)
      | None \<Rightarrow>
          (let g1 = g\<lparr>calls := calls g @ [Call_Users_Get username]\<rparr> in
           case Users_Get env username of
             Err e \<Rightarrow> (Fatal, g1)
           | Ok None \<Rightarrow> (Panic, g1)
           | Ok (Some name) \<Rightarrow>
               (Return name, g1\<lparr>gh_cache := (gh_cache g1)(username \<mapsto> name)\<rparr>)))"

subsection \<open>\<^verbatim>\<open>extractEmailFromIssue\<close>\<close>

text \<open>The opening marker \<^verbatim>\<open><a href="mailto:'\<close>, the closing tag and the quote.\<close>

definition mailto_marker :: string where
  "mailto_marker = ''<a href='' @ [CHR 0x22] @ ''mailto:'' @ [CHR 0x27]"

definition anchor_end :: string where
  "anchor_end = ''</a>''"

definition quote :: string where
  "quote = [CHR 0x27]"

definition extractEmailFromIssue :: "string \<Rightarrow> string option" where
  "extractEmailFromIssue body =
     (case slice_from body (strings_Index body mailto_marker + int (length mailto_marker)) of
        None \<Rightarrow> None
      | Some body_email_start \<Rightarrow>
          (let email_end = strings_Index body_email_start anchor_end in
           case slice_to body_email_start email_end of
             None \<Rightarrow> None
           | Some html_email \<Rightarrow> slice_to html_email (strings_Index html_email quote)))"

subsection \<open>\<^verbatim>\<open>commentToEmail\<close>\<close>

definition commentToEmail ::
  "providers \<Rightarrow> string \<Rightarrow> string \<Rightarrow> string \<Rightarrow> string \<Rightarrow> state \<Rightarrow> string ret \<times> state" where
  "commentToEmail env author title comment reply_to g =
     (if dryrun g then (Return [], g)
      else
        (let message = \<lparr>mail_from = author @ '' <bugs@usegalaxy.eu>'',
                        mail_subject = ''Re: '' @ title,
                        mail_text = comment,
                        mail_to = reply_to\<rparr>;
             g1 = g\<lparr>calls := calls g @ [Call_Mg_Send message]\<rparr> in
         case Mg_Send env message of
           Err e \<Rightarrow> (Fatal, g1)
         | Ok msg_id \<Rightarrow> (Return msg_id, g1)))"

subsection \<open>\<^verbatim>\<open>emailToComment\<close>\<close>

text \<open>
  The loop over the keys of the store reads every value and ends the process when a
  read fails; \<open>False\<close> is that end.
\<close>

fun read_all :: "kvstore \<Rightarrow> string list \<Rightarrow> bool" where
  "read_all store [] = True"
| "read_all store (key # arr) =
     (case rkv_Get store key of None \<Rightarrow> False | Some v \<Rightarrow> read_all store arr)"

definition emailToComment ::
  "providers \<Rightarrow> string \<Rightarrow> string \<Rightarrow> state \<Rightarrow> unit ret \<times> state" where
  "emailToComment env comment in_reply_to g =
     (case kv g of
        None \<Rightarrow> (Panic, g)
      | Some store \<Rightarrow>
          if \<not> read_all store (rkv_GetKeys store) then (Fatal, g)
          else
            (let issueNum = 1;
                 g1 = g\<lparr>calls := calls g @ [Call_Issues_Get ''usegalaxy.eu'' ''issues'' issueNum]\<rparr>;
                 g2 = (case Issues_Get env ''usegalaxy.eu'' ''issues'' issueNum of
                         Err e \<Rightarrow> g1\<lparr>errlog := errlog g1 @ [Error_provider e]\<rparr>
                       | Ok u \<Rightarrow> g1) in
             if dryrun g2 then (Return (), g2)
             else
               (let g3 = g2\<lparr>calls := calls g2 @
                            [Call_Issues_CreateComment ''usegalaxy.eu'' ''issue-testing'' issueNum comment]\<rparr> in
                case Issues_CreateComment env ''usegalaxy.eu'' ''issue-testing'' issueNum comment of
                  Err e \<Rightarrow> (Return (), g3\<lparr>errlog := errlog g3 @ [Error_provider e]\<rparr>)
                | Ok u \<Rightarrow> (Return (), g3))))"

subsection \<open>The handlers\<close>

definition http_StatusText :: "nat \<Rightarrow> string" where
  "http_StatusText code =
     (if code = 200 then ''OK''
      else if code = 400 then ''Bad Request''
      else if code = 405 then ''Method Not Allowed''
      else if code = 406 then ''Not Acceptable''
      else if code = 500 then ''Internal Server Error''
      else [])"

text \<open>\<^verbatim>\<open>http.Error\<close> answers with the status and the text followed by a newline.\<close>

definition http_Error :: "string \<Rightarrow> nat \<Rightarrow> outcome" where
  "http_Error msg code = Response code (msg @ [CHR 0x0A])"

text \<open>
  The request of the Mailgun webhook: the method and what \<^verbatim>\<open>ParseForm\<close> gives, an
  error or the form, a map from field names to the values sent. A field that was not
  sent reads as the empty slice, and indexing it panics.
\<close>

datatype form = Parse_error string | Form "string \<rightharpoonup> string list"

record mailgun_request =
  mg_Method :: string
  mg_PostForm :: form

definition field :: "(string \<rightharpoonup> string list) \<Rightarrow> string \<Rightarrow> string list" where
  "field f name = (case f name of None \<Rightarrow> [] | Some vs \<Rightarrow> vs)"

text \<open>
  The comment that the handler makes of a mail, the first argument of its call of
  \<^verbatim>\<open>emailToComment\<close>: \<^verbatim>\<open>from[0]+" wrote: \n\n"+html_body[0]\<close>.
\<close>

definition mail_comment :: "string \<Rightarrow> string \<Rightarrow> string" where
  "mail_comment sender html_body = sender @ '' wrote: '' @ [CHR 0x0A, CHR 0x0A] @ html_body"

definition mailgunWebHook :: "providers \<Rightarrow> mailgun_request \<Rightarrow> state \<Rightarrow> outcome \<times> state" where
  "mailgunWebHook env req g =
     (if mg_Method req \<noteq> ''POST'' then (http_Error (http_StatusText 405) 405, g)
      else
        case mg_PostForm req of
          Parse_error e \<Rightarrow> (http_Error e 500, g)
        | Form f \<Rightarrow>
            (case (field f ''From'', field f ''stripped-html'', field f ''In-Reply-To'') of
               (sender # fs, html_body # hs, in_reply_to # rs) \<Rightarrow>
                 (case emailToComment env (mail_comment sender html_body) in_reply_to g of
                    (Return u, g') \<Rightarrow> (Response 200 ''OK'', g')
                  | (Panic, g') \<Rightarrow> (Handler_Panic, g')
                  | (Fatal, g') \<Rightarrow> (Process_Exit, g'))
             | _ \<Rightarrow> (Handler_Panic, g)))"

text \<open>
  The request of the GitHub webhook: the method, the two headers the handler reads,
  and the body: unreadable, not a payload, or the payload \<^verbatim>\<open>json.Unmarshal\<close> decodes.
\<close>

datatype gh_body = Read_error string | Unmarshal_error string | Json payload

record github_request =
  gh_Method :: string
  gh_Event :: string
  gh_Content_Type :: string
  gh_Body :: gh_body

definition githubWebHook :: "providers \<Rightarrow> github_request \<Rightarrow> state \<Rightarrow> outcome \<times> state" where
  "githubWebHook env req g =
     (if gh_Method req \<noteq> ''POST'' then (http_Error (http_StatusText 405) 405, g)
      else if gh_Event req = ''ping'' then (http_Error (http_StatusText 200) 200, g)
      else if gh_Event req \<noteq> ''issue_comment'' then
        (http_Error (http_StatusText 400) 400,
         g\<lparr>errlog := errlog g @ [Error_event_not_supported (gh_Event req)]\<rparr>)
      else if \<not> strings_Contains (gh_Content_Type req) ''json'' then
        (http_Error (http_StatusText 406) 406, g\<lparr>errlog := errlog g @ [Error_only_json]\<rparr>)
      else
        case gh_Body req of
          Read_error e \<Rightarrow>
            (http_Error (http_StatusText 500) 500, g\<lparr>errlog := errlog g @ [Error_read_body e]\<rparr>)
        | Unmarshal_error e \<Rightarrow>
            (http_Error (http_StatusText 500) 500, g\<lparr>errlog := errlog g @ [Error_unmarshal e]\<rparr>)
        | Json comment \<Rightarrow>
            if Action comment \<noteq> ''created'' then (http_Error (http_StatusText 200) 200, g)
            else
              (case getNameForUser env (user_Login (comment_User (Comment comment))) g of
                 (Fatal, g1) \<Rightarrow> (Process_Exit, g1)
               | (Panic, g1) \<Rightarrow> (Handler_Panic, g1)
               | (Return author, g1) \<Rightarrow>
                   (case extractEmailFromIssue (issue_Body (Issue comment)) of
                      None \<Rightarrow> (Handler_Panic, g1)
                    | Some reply_to \<Rightarrow>
                        (case commentToEmail env author (issue_Title (Issue comment))
                                (comment_Body (Comment comment)) reply_to g1 of
                           (Fatal, g2) \<Rightarrow> (Process_Exit, g2)
                         | (Panic, g2) \<Rightarrow> (Handler_Panic, g2)
                         | (Return response, g2) \<Rightarrow>
                             if \<not> dryrun g2 then
                               (if response \<noteq> [] then
                                  (case kv g2 of
                                     None \<Rightarrow> (Handler_Panic, g2)
                                   | Some store \<Rightarrow>
                                       (Response 200 ''OK'',
                                        g2\<lparr>kv := Some (rkv_Put store response
                                                       (issue_Number (Issue comment)))\<rparr>))
                                else
                                  (Response 200 ''OK'',
                                   g2\<lparr>errlog := errlog g2 @ [Error_response_nil]\<rparr>))
                             else (Response 200 ''OK'', g2)))))"

subsection \<open>\<^verbatim>\<open>main\<close>: the state the handlers start from\<close>

text \<open>
  The action of the command line application, up to the point where it starts the server.
  It takes the \<^verbatim>\<open>dryrun\<close> flag and what \<^verbatim>\<open>rkv.NewSafe\<close> gives, an error or the store.
  It opens the store into \<open>local_kv\<close>: the source writes \<^verbatim>\<open>kv, err := rkv.NewSafe(...)\<close>, and
  \<^verbatim>\<open>:=\<close> inside the function declares a new variable. That local store is read once,
  key by key. The package-level \<^verbatim>\<open>dryrun\<close> and \<^verbatim>\<open>gh_cache\<close> are assigned with \<^verbatim>\<open>=\<close>; the
  package-level \<^verbatim>\<open>kv\<close> is assigned nowhere in the program and stays nil.
\<close>

definition app_Action :: "bool \<Rightarrow> kvstore result \<Rightarrow> state ret" where
  "app_Action flag_dryrun opened =
     (case opened of
        Err e \<Rightarrow> Fatal
      | Ok local_kv \<Rightarrow>
          if \<not> read_all local_kv (rkv_GetKeys local_kv) then Fatal
          else Return \<lparr>gh_cache = Map.empty, dryrun = flag_dryrun, kv = None,
                        calls = [], errlog = []\<rparr>)"

subsection \<open>Test doubles and example requests\<close>

text \<open>Remote services that answer every call, and remote services that fail every call.\<close>

definition env_ok :: providers where
  "env_ok = \<lparr>Users_Get = (\<lambda>username. Ok (Some ''Alice A.'')),
             Mg_Send = (\<lambda>message. Ok ''m-100''),
             Issues_Get = (\<lambda>owner repo n. Ok ()),
             Issues_CreateComment = (\<lambda>owner repo n body. Ok ())\<rparr>"

definition env_down :: providers where
  "env_down = \<lparr>Users_Get = (\<lambda>username. Err ''unavailable''),
               Mg_Send = (\<lambda>message. Err ''unavailable''),
               Issues_Get = (\<lambda>owner repo n. Err ''unavailable''),
               Issues_CreateComment = (\<lambda>owner repo n body. Err ''unavailable'')\<rparr>"

text \<open>A state with an open store that holds one correlation, of message \<open>m-100\<close> to issue 7.\<close>

definition state0 :: state where
  "state0 = \<lparr>gh_cache = Map.empty, dryrun = False, kv = Some [(''m-100'', 7)],
             calls = [], errlog = []\<rparr>"

text \<open>
  A comment of \<open>alice\<close> on the issue of the given number, \<open>Bug\<close>, whose body holds the
  contact \<open>a@x.org\<close> in the templated form.
\<close>

definition contact_body :: string where
  "contact_body = ''Contact: '' @ mailto_marker @ ''a@x.org'' @ [CHR 0x27, CHR 0x22] @ ''>a@x.org</a> end''"

definition comment_payload :: "string \<Rightarrow> int \<Rightarrow> payload" where
  "comment_payload action number =
     \<lparr>Action = action,
      Issue = \<lparr>issue_ID = 1000 + number, issue_Number = number, issue_Title = ''Bug'',
               issue_User = \<lparr>user_Login = ''bob'', user_Url = [], user_ID = 2\<rparr>,
               issue_State = ''open'', issue_Body = contact_body\<rparr>,
      Comment = \<lparr>comment_User = \<lparr>user_Login = ''alice'', user_Url = [], user_ID = 3\<rparr>,
                 comment_Body = ''hi'', comment_ID = 9\<rparr>,
      Repository = \<lparr>repository_Name = ''issues'',
                    repository_Owner = \<lparr>owner_Login = ''usegalaxy.eu''\<rparr>\<rparr>\<rparr>"

definition comment_request :: "string \<Rightarrow> int \<Rightarrow> github_request" where
  "comment_request action number =
     \<lparr>gh_Method = ''POST'', gh_Event = ''issue_comment'',
      gh_Content_Type = ''application/json'', gh_Body = Json (comment_payload action number)\<rparr>"

text \<open>A mail of the given sender and body, in reply to the given message.\<close>

definition reply_request :: "string \<Rightarrow> string \<Rightarrow> string \<Rightarrow> mailgun_request" where
  "reply_request sender html_body in_reply_to =
     \<lparr>mg_Method = ''POST'',
      mg_PostForm = Form [''From'' \<mapsto> [sender], ''stripped-html'' \<mapsto> [html_body],
                          ''In-Reply-To'' \<mapsto> [in_reply_to]]\<rparr>"

text \<open>
  The state in which the server takes its first request, as \<open>app_Action\<close> leaves it:
  nothing cached, nothing called, and the store handle nil.
\<close>

definition started :: "bool \<Rightarrow> state" where
  "started flag_dryrun =
     \<lparr>gh_cache = Map.empty, dryrun = flag_dryrun, kv = None, calls = [], errlog = []\<rparr>"

text \<open>The services that answer, with a mail service that gives every mail the identifier \<open>msg-1\<close>.\<close>

definition env_msg1 :: providers where
  "env_msg1 = env_ok\<lparr>Mg_Send := (\<lambda>message. Ok ''msg-1'')\<rparr>"

text \<open>The services that answer, with a mail service that fails.\<close>

definition env_no_mail :: providers where
  "env_no_mail = env_ok\<lparr>Mg_Send := (\<lambda>message. Err ''unavailable'')\<rparr>"

text \<open>A mail that has a body and an \<open>In-Reply-To\<close> field and no \<open>From\<close> field.\<close>

definition no_sender_request :: mailgun_request where
  "no_sender_request =
     \<lparr>mg_Method = ''POST'',
      mg_PostForm = Form [''stripped-html'' \<mapsto> [''hi''], ''In-Reply-To'' \<mapsto> [''m-100'']]\<rparr>"

section \<open>Properties\<close>

subsection \<open>Events that are not new comments\<close>

lemma json_content_type: "strings_Contains ''application/json'' ''json''"
  by (simp add: strings_Contains_def strings_Index_def)

text \<open>
  C10. A tracker event that reaches the payload (a \<^verbatim>\<open>POST\<close> of an \<^verbatim>\<open>issue_comment\<close>
  event with a JSON body that decodes) and whose action is not \<open>created\<close> is answered
  with status 200 and the text \<open>OK\<close>, and the state is the one before: no remote call is
  made (so no mail is sent), nothing is logged as an error, and the store is not written.
\<close>

theorem githubWebHook_ignores_other_actions:
  assumes "gh_Method req = ''POST''" and "gh_Event req = ''issue_comment''"
    and "strings_Contains (gh_Content_Type req) ''json''"
    and "gh_Body req = Json p" and "Action p \<noteq> ''created''"
  shows "githubWebHook env req g = (Response 200 (''OK'' @ [CHR 0x0A]), g)"
  using assms by (simp add: githubWebHook_def http_Error_def http_StatusText_def)

theorem githubWebHook_ignores_other_actions_witness:
  "gh_Method (comment_request ''edited'' 7) = ''POST''
   \<and> gh_Event (comment_request ''edited'' 7) = ''issue_comment''
   \<and> strings_Contains (gh_Content_Type (comment_request ''edited'' 7)) ''json''
   \<and> gh_Body (comment_request ''edited'' 7) = Json (comment_payload ''edited'' 7)
   \<and> Action (comment_payload ''edited'' 7) \<noteq> ''created''
   \<and> githubWebHook env_ok (comment_request ''edited'' 7) state0
       = (Response 200 (''OK'' @ [CHR 0x0A]), state0)"
  using githubWebHook_ignores_other_actions
    [of "comment_request ''edited'' 7" "comment_payload ''edited'' 7" env_ok state0]
  by (simp add: comment_request_def comment_payload_def json_content_type)

subsection \<open>Address extraction\<close>

text \<open>
  \<open>index_at\<close> finds the first place where the separator is a prefix of what is left.
\<close>

lemma index_at_first:
  "i \<le> length s \<Longrightarrow> prefix sep (drop i s) \<Longrightarrow> (\<forall>j<i. \<not> prefix sep (drop j s))
   \<Longrightarrow> index_at s sep n = n + int i"
proof (induction s arbitrary: i n)
  case Nil
  then show ?case by simp
next
  case (Cons c cs)
  show ?case
  proof (cases i)
    case 0
    with Cons.prems show ?thesis by simp
  next
    case (Suc i')
    from Cons.prems Suc have no: "\<not> prefix sep (c # cs)" by force
    have later: "\<forall>j<i'. \<not> prefix sep (drop j cs)"
    proof (intro allI impI)
      fix j assume "j < i'"
      then have "Suc j < i" using Suc by simp
      with Cons.prems(3) have "\<not> prefix sep (drop (Suc j) (c # cs))" by blast
      then show "\<not> prefix sep (drop j cs)" by simp
    qed
    from Cons.prems Suc have "i' \<le> length cs" "prefix sep (drop i' cs)" by simp_all
    from Cons.IH [OF this later] have "index_at cs sep (n + 1) = n + 1 + int i'" .
    with no Suc show ?thesis by simp
  qed
qed

lemma index_at_occurrence:
  assumes "j \<le> length s" and "prefix sep (drop j s)"
  shows "\<exists>i\<le>j. prefix sep (drop i s) \<and> (\<forall>k<i. \<not> prefix sep (drop k s))
           \<and> index_at s sep n = n + int i"
proof -
  define i where "i = (LEAST i. prefix sep (drop i s))"
  have occ: "prefix sep (drop i s)"
    unfolding i_def using assms(2) by (rule LeastI)
  have le: "i \<le> j"
    unfolding i_def using assms(2) by (rule Least_le)
  have least: "\<forall>k<i. \<not> prefix sep (drop k s)"
    unfolding i_def using not_less_Least by blast
  from le assms(1) have "i \<le> length s" by simp
  from index_at_first [OF this occ least] occ le least show ?thesis by blast
qed

lemma not_Contains_no_occurrence:
  assumes "\<not> strings_Contains s sep" and "j \<le> length s"
  shows "\<not> prefix sep (drop j s)"
proof
  assume "prefix sep (drop j s)"
  from index_at_occurrence [OF assms(2) this, of 0]
  have "0 \<le> index_at s sep 0" by auto
  with assms(1) show False by (simp add: strings_Contains_def strings_Index_def)
qed

lemma occurrence_before_fresh_head:
  assumes "prefix (x # m) (d @ (x # m) @ rest)" and "d \<noteq> []" and "x \<notin> set m"
  shows "prefix (x # m) d"
proof -
  from assms(1) have "prefix (x # m) d \<or> (\<exists>us. x # m = d @ us \<and> prefix us ((x # m) @ rest))"
    by (rule prefix_append [THEN iffD1])
  then consider "prefix (x # m) d"
    | us where "x # m = d @ us" "prefix us ((x # m) @ rest)"
    by blast
  then show ?thesis
  proof cases
    case 1
    then show ?thesis .
  next
    case 2
    from 2(1) assms(2) obtain d' where d: "d = x # d'" and m: "m = d' @ us"
      by (cases d) auto
    show ?thesis
    proof (cases us)
      case Nil
      with 2(1) show ?thesis by simp
    next
      case (Cons u us')
      with 2(2) have "u = x" by simp
      with Cons m assms(3) show ?thesis by simp
    qed
  qed
qed

lemma occurrence_before_foreign:
  assumes "prefix sep (d @ q # t)" and "q \<notin> set sep"
  shows "prefix sep d"
proof -
  from assms(1) have "prefix sep d \<or> (\<exists>us. sep = d @ us \<and> prefix us (q # t))"
    by (rule prefix_append [THEN iffD1])
  then consider "prefix sep d" | us where "sep = d @ us" "prefix us (q # t)"
    by blast
  then show ?thesis
  proof cases
    case 1
    then show ?thesis .
  next
    case 2
    show ?thesis
    proof (cases us)
      case Nil
      with 2(1) show ?thesis by simp
    next
      case (Cons u us')
      with 2(2) have "u = q" by simp
      with Cons 2(1) assms(2) show ?thesis by simp
    qed
  qed
qed


lemma strings_Index_marker:
  assumes "\<not> strings_Contains pre mailto_marker"
  shows "strings_Index (pre @ mailto_marker @ rest) mailto_marker = int (length pre)"
proof -
  obtain x m where xm: "mailto_marker = x # m" and fresh: "x \<notin> set m"
    by (simp add: mailto_marker_def)
  have here: "prefix mailto_marker (drop (length pre) (pre @ mailto_marker @ rest))"
    by simp
  have before: "\<forall>j<length pre. \<not> prefix mailto_marker (drop j (pre @ mailto_marker @ rest))"
  proof (intro allI impI notI)
    fix j assume j: "j < length pre"
      and occ: "prefix mailto_marker (drop j (pre @ mailto_marker @ rest))"
    from j have ne: "drop j pre \<noteq> []" by simp
    from occ j have "prefix (x # m) (drop j pre @ (x # m) @ rest)" by (simp add: xm)
    from occurrence_before_fresh_head [OF this ne fresh]
    have "prefix mailto_marker (drop j pre)" by (simp add: xm)
    moreover from j have "j \<le> length pre" by simp
    ultimately show False using not_Contains_no_occurrence [OF assms] by blast
  qed
  have "index_at (pre @ mailto_marker @ rest) mailto_marker 0 = 0 + int (length pre)"
    by (rule index_at_first [OF _ here before]) simp
  then show ?thesis by (simp add: strings_Index_def)
qed

lemma strings_Index_quote:
  assumes "CHR 0x27 \<notin> set addr"
  shows "strings_Index (addr @ quote @ t) quote = int (length addr)"
proof -
  have here: "prefix quote (drop (length addr) (addr @ quote @ t))"
    by simp
  have before: "\<forall>j<length addr. \<not> prefix quote (drop j (addr @ quote @ t))"
  proof (intro allI impI notI)
    fix j assume j: "j < length addr"
      and occ: "prefix quote (drop j (addr @ quote @ t))"
    from j have "drop j addr = addr ! j # drop (Suc j) addr" by (simp add: Cons_nth_drop_Suc)
    with occ j have "addr ! j = CHR 0x27" by (simp add: quote_def)
    with j assms show False by (metis nth_mem)
  qed
  have "index_at (addr @ quote @ t) quote 0 = 0 + int (length addr)"
    by (rule index_at_first [OF _ here before]) simp
  then show ?thesis by (simp add: strings_Index_def)
qed

lemma strings_Index_anchor_end:
  assumes "\<not> strings_Contains addr anchor_end"
  shows "\<exists>i. strings_Index (addr @ quote @ mid @ anchor_end @ post) anchor_end = int i
           \<and> length addr < i \<and> i \<le> length (addr @ quote @ mid)"
proof -
  let ?rest = "addr @ quote @ mid @ anchor_end @ post"
  let ?k = "length (addr @ quote @ mid)"
  have "?k \<le> length ?rest" by simp
  moreover have "prefix anchor_end (drop ?k ?rest)" by simp
  ultimately obtain i where i: "i \<le> ?k" "prefix anchor_end (drop i ?rest)"
    "index_at ?rest anchor_end 0 = 0 + int i"
    using index_at_occurrence [of ?k ?rest anchor_end 0] by blast
  have "length addr < i"
  proof (rule ccontr)
    assume "\<not> length addr < i"
    then have le: "i \<le> length addr" by simp
    with i(2) have "prefix anchor_end (drop i addr @ CHR 0x27 # (mid @ anchor_end @ post))"
      by (simp add: quote_def)
    moreover have "CHR 0x27 \<notin> set anchor_end" by (simp add: anchor_end_def)
    ultimately have "prefix anchor_end (drop i addr)" by (rule occurrence_before_foreign)
    with not_Contains_no_occurrence [OF assms le] show False by blast
  qed
  with i show ?thesis by (auto simp: strings_Index_def)
qed

lemma extractEmailFromIssue_fragment:
  assumes pre: "\<not> strings_Contains pre mailto_marker"
    and quote: "CHR 0x27 \<notin> set addr"
    and anchor: "\<not> strings_Contains addr anchor_end"
  shows "extractEmailFromIssue (pre @ mailto_marker @ addr @ quote @ mid @ anchor_end @ post)
           = Some addr"
proof -
  let ?rest = "addr @ quote @ mid @ anchor_end @ post"
  have start: "slice_from (pre @ mailto_marker @ ?rest)
                 (strings_Index (pre @ mailto_marker @ ?rest) mailto_marker
                    + int (length mailto_marker)) = Some ?rest"
    by (simp add: strings_Index_marker [OF pre] slice_from_def nat_add_distrib)
  from strings_Index_anchor_end [OF anchor, of mid post] obtain i
    where i: "strings_Index ?rest anchor_end = int i" "length addr < i"
      "i \<le> length (addr @ quote @ mid)"
    by blast
  from i(2) obtain d where d: "i = length addr + Suc d"
    by (metis less_imp_Suc_add add_Suc_right)
  define t where "t = take d (mid @ anchor_end @ post)"
  have html: "take i ?rest = addr @ quote @ t"
    by (simp add: d t_def quote_def)
  from i(3) have cut: "slice_to ?rest (strings_Index ?rest anchor_end) = Some (addr @ quote @ t)"
    unfolding html [symmetric] by (simp add: i(1) slice_to_def)
  have "slice_to (addr @ quote @ t) (strings_Index (addr @ quote @ t) quote) = Some addr"
    by (simp add: strings_Index_quote [OF quote] slice_to_def)
  with start cut show ?thesis
    by (simp add: extractEmailFromIssue_def Let_def)
qed

text \<open>
  C8. Let the body hold a contact fragment \<^verbatim>\<open><a href="mailto:'ADDRESS'">...</a>\<close>, with
  no opening marker before it (the fragment is the first one), and let \<open>ADDRESS\<close> hold
  neither a quote nor a closing anchor tag. Then \<open>extractEmailFromIssue\<close> returns
  exactly \<open>ADDRESS\<close>, whatever stands before the fragment, between the tags and after it.
\<close>

theorem extractEmailFromIssue_template:
  assumes "\<not> strings_Contains pre mailto_marker"
    and "CHR 0x27 \<notin> set addr"
    and "\<not> strings_Contains addr anchor_end"
  shows "extractEmailFromIssue
           (pre @ mailto_marker @ addr @ [CHR 0x27, CHR 0x22] @ ''>'' @ inner @ ''</a>'' @ post)
         = Some addr"
  using extractEmailFromIssue_fragment [OF assms, of "[CHR 0x22] @ ''>'' @ inner" post]
  by (simp add: quote_def anchor_end_def)

theorem extractEmailFromIssue_template_witness:
  "\<not> strings_Contains ''Contact: '' mailto_marker
   \<and> CHR 0x27 \<notin> set ''bugs@example.org''
   \<and> \<not> strings_Contains ''bugs@example.org'' anchor_end
   \<and> extractEmailFromIssue
         (''Contact: '' @ mailto_marker @ ''bugs@example.org'' @ [CHR 0x27, CHR 0x22] @ ''>''
            @ ''mail us'' @ ''</a>'' @ '' or call'')
       = Some ''bugs@example.org''"
proof -
  have 1: "\<not> strings_Contains ''Contact: '' mailto_marker"
    by (simp add: strings_Contains_def strings_Index_def mailto_marker_def)
  have 2: "CHR 0x27 \<notin> set ''bugs@example.org''"
    by simp
  have 3: "\<not> strings_Contains ''bugs@example.org'' anchor_end"
    by (simp add: strings_Contains_def strings_Index_def anchor_end_def)
  from extractEmailFromIssue_template [OF 1 2 3, of "''mail us''" "'' or call''"] 1 2 3
  show ?thesis by simp
qed

text \<open>
  C3. Bodies without the opening marker, or without the quote that closes the address,
  get no error value. On the empty body the first slice expression panics; on a body of
  more than sixteen bytes without the marker the text from offset 16 on is searched, and
  what stands there before a quote is returned as the address; on a fragment whose
  address is not closed by a quote the last slice expression panics.
\<close>

theorem extractEmailFromIssue_malformed:
  "\<not> strings_Contains [] mailto_marker
   \<and> extractEmailFromIssue [] = None
   \<and> \<not> strings_Contains (''0123456789abcdefxy'' @ [CHR 0x27] @ ''z</a>'') mailto_marker
   \<and> extractEmailFromIssue (''0123456789abcdefxy'' @ [CHR 0x27] @ ''z</a>'') = Some ''xy''
   \<and> \<not> strings_Contains (''bugs@example.org'' @ [CHR 0x22] @ ''>x</a>'') quote
   \<and> extractEmailFromIssue (mailto_marker @ ''bugs@example.org'' @ [CHR 0x22] @ ''>x</a>'') = None"
  by (simp add: extractEmailFromIssue_def strings_Contains_def strings_Index_def slice_from_def
      slice_to_def mailto_marker_def anchor_end_def quote_def)

subsection \<open>The handlers, step by step\<close>

lemma read_all_listed: "set arr \<subseteq> fst ` set store \<Longrightarrow> read_all store arr"
proof (induction arr)
  case Nil
  then show ?case by simp
next
  case (Cons key arr)
  then have "key \<in> fst ` set store" by simp
  then obtain v where "map_of store key = Some v"
    by (metis map_of_eq_None_iff not_Some_eq)
  with Cons show ?case by (simp add: rkv_Get_def)
qed

lemma read_all_GetKeys: "read_all store (rkv_GetKeys store)"
  by (rule read_all_listed) (simp add: rkv_GetKeys_def)

text \<open>
  When the store can be opened, the server starts in the state \<open>started\<close>, whatever the
  store holds: the store handle of the handlers is nil.
\<close>

lemma app_Action_started: "app_Action flag_dryrun (Ok store) = Return (started flag_dryrun)"
  by (simp add: app_Action_def started_def read_all_GetKeys)

lemma getNameForUser_frame:
  assumes "getNameForUser env username g = (r, g1)"
  shows "dryrun g1 = dryrun g" and "kv g1 = kv g" and "errlog g1 = errlog g"
    and "calls g1 = calls g \<or> calls g1 = calls g @ [Call_Users_Get username]"
  using assms
  by (auto simp: getNameForUser_def Let_def split: option.splits result.splits)

lemma commentToEmail_frame:
  assumes "commentToEmail env author title comment reply_to g = (r, g1)"
  shows "kv g1 = kv g"
  using assms
  by (auto simp: commentToEmail_def Let_def split: if_splits result.splits)

lemma mailgunWebHook_fields:
  assumes "f ''From'' = Some (sender # fs)" and "f ''stripped-html'' = Some (html_body # hs)"
    and "f ''In-Reply-To'' = Some (in_reply_to # rs)"
  shows "mailgunWebHook env \<lparr>mg_Method = ''POST'', mg_PostForm = Form f\<rparr> g =
           (case emailToComment env (mail_comment sender html_body) in_reply_to g of
              (Return u, g') \<Rightarrow> (Response 200 ''OK'', g')
            | (Panic, g') \<Rightarrow> (Handler_Panic, g')
            | (Fatal, g') \<Rightarrow> (Process_Exit, g'))"
  using assms by (simp add: mailgunWebHook_def field_def)

lemma contact_body_address: "extractEmailFromIssue contact_body = Some ''a@x.org''"
  by (simp add: contact_body_def extractEmailFromIssue_def strings_Index_def slice_from_def
      slice_to_def mailto_marker_def anchor_end_def quote_def)

lemma payload_address:
  "extractEmailFromIssue (issue_Body (Issue (comment_payload action number))) = Some ''a@x.org''"
  by (simp add: comment_payload_def contact_body_address)

lemma githubWebHook_lookup_fatal:
  assumes "strings_Contains ct ''json''" and "Action p = ''created''"
    and "getNameForUser env (user_Login (comment_User (Comment p))) g = (Fatal, g1)"
  shows "githubWebHook env \<lparr>gh_Method = ''POST'', gh_Event = ''issue_comment'',
             gh_Content_Type = ct, gh_Body = Json p\<rparr> g = (Process_Exit, g1)"
  using assms by (simp add: githubWebHook_def)

lemma githubWebHook_send:
  assumes "strings_Contains ct ''json''" and "Action p = ''created''"
    and "getNameForUser env (user_Login (comment_User (Comment p))) g = (Return author, g1)"
    and "extractEmailFromIssue (issue_Body (Issue p)) = Some reply_to"
    and "commentToEmail env author (issue_Title (Issue p)) (comment_Body (Comment p)) reply_to g1
           = (r, g2)"
  shows "githubWebHook env \<lparr>gh_Method = ''POST'', gh_Event = ''issue_comment'',
             gh_Content_Type = ct, gh_Body = Json p\<rparr> g =
           (case r of
              Fatal \<Rightarrow> (Process_Exit, g2)
            | Panic \<Rightarrow> (Handler_Panic, g2)
            | Return response \<Rightarrow>
                if \<not> dryrun g2 then
                  (if response \<noteq> [] then
                     (case kv g2 of
                        None \<Rightarrow> (Handler_Panic, g2)
                      | Some store \<Rightarrow>
                          (Response 200 ''OK'',
                           g2\<lparr>kv := Some (rkv_Put store response (issue_Number (Issue p)))\<rparr>))
                   else (Response 200 ''OK'', g2\<lparr>errlog := errlog g2 @ [Error_response_nil]\<rparr>))
                else (Response 200 ''OK'', g2))"
  using assms by (simp add: githubWebHook_def split: ret.splits)

text \<open>
  No handler assigns the store handle: from a state where it is nil, every request
  leaves it nil, and a mail leaves the whole state as it was.
\<close>

lemma emailToComment_nil: "kv g = None \<Longrightarrow> emailToComment env comment in_reply_to g = (Panic, g)"
  by (simp add: emailToComment_def)

lemma mailgunWebHook_nil: "kv g = None \<Longrightarrow> snd (mailgunWebHook env req g) = g"
  by (simp add: mailgunWebHook_def emailToComment_nil split: form.splits list.splits)

lemma githubWebHook_nil:
  assumes "kv g = None"
  shows "kv (snd (githubWebHook env req g)) = None"
proof (cases "gh_Method req = ''POST'' \<and> gh_Event req = ''issue_comment''
    \<and> strings_Contains (gh_Content_Type req) ''json''
    \<and> (\<exists>p. gh_Body req = Json p \<and> Action p = ''created'')")
  case False
  with assms show ?thesis
    by (auto simp: githubWebHook_def split: gh_body.splits)
next
  case True
  then obtain p where p: "gh_Body req = Json p" "Action p = ''created''" by blast
  obtain r1 g1 where n: "getNameForUser env (user_Login (comment_User (Comment p))) g = (r1, g1)"
    by (cases "getNameForUser env (user_Login (comment_User (Comment p))) g")
  from getNameForUser_frame(2) [OF n] assms have g1: "kv g1 = None" by simp
  show ?thesis
  proof (cases r1)
    case (Return author)
    show ?thesis
    proof (cases "extractEmailFromIssue (issue_Body (Issue p))")
      case None
      with True p n Return g1 show ?thesis by (simp add: githubWebHook_def)
    next
      case (Some reply_to)
      obtain r2 g2 where c: "commentToEmail env author (issue_Title (Issue p))
          (comment_Body (Comment p)) reply_to g1 = (r2, g2)"
        by (cases "commentToEmail env author (issue_Title (Issue p))
          (comment_Body (Comment p)) reply_to g1")
      from commentToEmail_frame [OF c] g1 have "kv g2 = None" by simp
      with True p n Return Some c show ?thesis
        by (simp add: githubWebHook_def split: ret.splits)
    qed
  next
    case Panic
    with True p n g1 show ?thesis by (simp add: githubWebHook_def)
  next
    case Fatal
    with True p n g1 show ?thesis by (simp add: githubWebHook_def)
  qed
qed

subsection \<open>Replies by mail\<close>


text \<open>
  C9. The comment that the handler makes of a mail is the sender, the text
  \<^verbatim>\<open> wrote: \<close> with a space after the colon, two newlines, and the body of the mail. It is
  not the sender followed by \<^verbatim>\<open> wrote:\<close> and the two newlines: for the mail of \<open>a@x.org\<close>
  with the body \<open>hi\<close> the two differ.
\<close>

theorem mail_comment_counterexample:
  "mail_comment ''a@x.org'' ''hi'' = ''a@x.org wrote: '' @ [CHR 0x0A, CHR 0x0A] @ ''hi''
   \<and> mail_comment ''a@x.org'' ''hi'' \<noteq> ''a@x.org'' @ '' wrote:'' @ [CHR 0x0A, CHR 0x0A] @ ''hi''"
  by (simp add: mail_comment_def)

text \<open>
  C9, as the code has it. For every \<^verbatim>\<open>POST\<close> whose form holds the three fields, in every
  state and whatever the remote services answer, the handler does what \<open>emailToComment\<close>
  does when it is called with the first \<open>In-Reply-To\<close> value and with the comment made
  of the first \<open>From\<close> value, then \<^verbatim>\<open> wrote: \<close>, two newlines and the first
  \<open>stripped-html\<close> value.
\<close>

theorem mailgunWebHook_comment_body:
  assumes "f ''From'' = Some (sender # fs)" and "f ''stripped-html'' = Some (html_body # hs)"
    and "f ''In-Reply-To'' = Some (in_reply_to # rs)"
  shows "mailgunWebHook env \<lparr>mg_Method = ''POST'', mg_PostForm = Form f\<rparr> g =
           (case emailToComment env (mail_comment sender html_body) in_reply_to g of
              (Return u, g') \<Rightarrow> (Response 200 ''OK'', g')
            | (Panic, g') \<Rightarrow> (Handler_Panic, g')
            | (Fatal, g') \<Rightarrow> (Process_Exit, g'))
         \<and> mail_comment sender html_body = sender @ '' wrote: '' @ [CHR 0x0A, CHR 0x0A] @ html_body"
  using mailgunWebHook_fields [OF assms] by (simp add: mail_comment_def)

theorem mailgunWebHook_comment_body_witness:
  "mailgunWebHook env_ok (reply_request ''a@x.org'' ''hello'' ''m-100'') (started False) =
     (case emailToComment env_ok (mail_comment ''a@x.org'' ''hello'') ''m-100'' (started False) of
        (Return u, g') \<Rightarrow> (Response 200 ''OK'', g')
      | (Panic, g') \<Rightarrow> (Handler_Panic, g')
      | (Fatal, g') \<Rightarrow> (Process_Exit, g'))
   \<and> mail_comment ''a@x.org'' ''hello''
       = ''a@x.org'' @ '' wrote: '' @ [CHR 0x0A, CHR 0x0A] @ ''hello''"
proof -
  let ?f = "[''From'' \<mapsto> [''a@x.org''], ''stripped-html'' \<mapsto> [''hello''],
             ''In-Reply-To'' \<mapsto> [''m-100'']]"
  have 1: "?f ''From'' = Some (''a@x.org'' # [])" by simp
  have 2: "?f ''stripped-html'' = Some (''hello'' # [])" by simp
  have 3: "?f ''In-Reply-To'' = Some (''m-100'' # [])" by simp
  show ?thesis
    unfolding reply_request_def by (rule mailgunWebHook_comment_body [OF 1 2 3])
qed

text \<open>
  C7. A mail with a field missing or empty gets no client-error response. When the
  \<open>From\<close> field is missing, indexing the empty slice panics, in the state the server
  starts in and in a state with an open store alike: nothing is answered and the state
  is as before. When the three fields are sent empty, no value is checked, and in the
  state the server starts in the handler panics when it lists the keys of the store.
\<close>

theorem mailgunWebHook_malformed_panics:
  "mg_PostForm no_sender_request
     = Form [''stripped-html'' \<mapsto> [''hi''], ''In-Reply-To'' \<mapsto> [''m-100'']]
   \<and> mailgunWebHook env_ok no_sender_request (started False) = (Handler_Panic, started False)
   \<and> mailgunWebHook env_ok no_sender_request state0 = (Handler_Panic, state0)
   \<and> mailgunWebHook env_ok (reply_request [] [] []) (started False)
       = (Handler_Panic, started False)"
  by (simp add: mailgunWebHook_def no_sender_request_def reply_request_def field_def
      emailToComment_def started_def state0_def)

subsection \<open>Comments on the tracker\<close>

text \<open>
  C5. The round trip through the store does not happen. The server starts with the
  store handle nil. A new comment on issue 42 is mailed, the mail gets the identifier
  \<open>msg-1\<close>, and then the call of \<^verbatim>\<open>Put\<close> on the nil handle panics: the request is not
  answered and nothing is stored. A reply to \<open>msg-1\<close> panics as well, when the handler
  lists the keys; no lookup of \<open>msg-1\<close> gives 42.
\<close>

theorem put_on_nil_handle_panics:
  "app_Action False (Ok []) = Return (started False)
   \<and> githubWebHook env_msg1 (comment_request ''created'' 42) (started False)
       = (Handler_Panic,
          \<lparr>gh_cache = [''alice'' \<mapsto> ''Alice A.''], dryrun = False, kv = None,
           calls = [Call_Users_Get ''alice'',
                    Call_Mg_Send \<lparr>mail_from = ''Alice A. <bugs@usegalaxy.eu>'',
                                  mail_subject = ''Re: Bug'', mail_text = ''hi'',
                                  mail_to = ''a@x.org''\<rparr>],
           errlog = []\<rparr>)
   \<and> mailgunWebHook env_msg1 (reply_request ''a@x.org'' ''thanks'' ''msg-1'')
        (snd (githubWebHook env_msg1 (comment_request ''created'' 42) (started False)))
       = (Handler_Panic,
          snd (githubWebHook env_msg1 (comment_request ''created'' 42) (started False)))"
  by (simp add: app_Action_started githubWebHook_def comment_request_def json_content_type
      comment_payload_def contact_body_address getNameForUser_def commentToEmail_def
      started_def env_msg1_def env_ok_def mailgunWebHook_def reply_request_def field_def
      emailToComment_def)

subsection \<open>Dry-run\<close>





subsection \<open>Remote services that fail\<close>

text \<open>
  C4. In the state the server starts in, when the lookup of the author's name fails, or
  the mail is not sent, the request gets no server-error response: the process ends.
\<close>

theorem provider_failure_counterexample:
  "githubWebHook env_down (comment_request ''created'' 7) (started False)
     = (Process_Exit, (started False)\<lparr>calls := [Call_Users_Get ''alice'']\<rparr>)
   \<and> fst (githubWebHook env_no_mail (comment_request ''created'' 7) (started False))
       = Process_Exit"
  by (simp add: started_def env_ok_def env_down_def env_no_mail_def githubWebHook_def
      comment_request_def json_content_type comment_payload_def contact_body_address
      getNameForUser_def commentToEmail_def)

text \<open>
  C4, as the code has it. For a new comment, in every state: when the author is not in
  the cache and the lookup of the name fails, \<^verbatim>\<open>log.Fatal\<close> ends the process after that
  one call; when the name is found, the issue body holds an address, dry-run is off and
  the mail is not sent, \<^verbatim>\<open>log.Fatal\<close> ends the process after that one call to send.
  No call is made a second time.
\<close>

theorem provider_failure_outcomes:
  "(strings_Contains ct ''json'' \<and> Action p = ''created''
      \<and> gh_cache g (user_Login (comment_User (Comment p))) = None
      \<and> Users_Get env (user_Login (comment_User (Comment p))) = Err e
    \<longrightarrow> githubWebHook env \<lparr>gh_Method = ''POST'', gh_Event = ''issue_comment'',
             gh_Content_Type = ct, gh_Body = Json p\<rparr> g
          = (Process_Exit,
             g\<lparr>calls := calls g @ [Call_Users_Get (user_Login (comment_User (Comment p)))]\<rparr>))
   \<and> (strings_Contains ct ''json'' \<and> Action p = ''created''
      \<and> getNameForUser env (user_Login (comment_User (Comment p))) g = (Return author, g1)
      \<and> extractEmailFromIssue (issue_Body (Issue p)) = Some reply_to
      \<and> \<not> dryrun g
      \<and> Mg_Send env \<lparr>mail_from = author @ '' <bugs@usegalaxy.eu>'',
                       mail_subject = ''Re: '' @ issue_Title (Issue p),
                       mail_text = comment_Body (Comment p), mail_to = reply_to\<rparr> = Err e
    \<longrightarrow> githubWebHook env \<lparr>gh_Method = ''POST'', gh_Event = ''issue_comment'',
             gh_Content_Type = ct, gh_Body = Json p\<rparr> g
          = (Process_Exit,
             g1\<lparr>calls := calls g1 @
                  [Call_Mg_Send \<lparr>mail_from = author @ '' <bugs@usegalaxy.eu>'',
                       mail_subject = ''Re: '' @ issue_Title (Issue p),
                       mail_text = comment_Body (Comment p), mail_to = reply_to\<rparr>]\<rparr>))"
proof (intro conjI)
  show "strings_Contains ct ''json'' \<and> Action p = ''created''
      \<and> gh_cache g (user_Login (comment_User (Comment p))) = None
      \<and> Users_Get env (user_Login (comment_User (Comment p))) = Err e
    \<longrightarrow> githubWebHook env \<lparr>gh_Method = ''POST'', gh_Event = ''issue_comment'',
             gh_Content_Type = ct, gh_Body = Json p\<rparr> g
          = (Process_Exit,
             g\<lparr>calls := calls g @ [Call_Users_Get (user_Login (comment_User (Comment p)))]\<rparr>)"
  proof (rule impI, elim conjE)
    assume ct: "strings_Contains ct ''json''" and act: "Action p = ''created''"
      and miss: "gh_cache g (user_Login (comment_User (Comment p))) = None"
      and err: "Users_Get env (user_Login (comment_User (Comment p))) = Err e"
    from miss err
    have "getNameForUser env (user_Login (comment_User (Comment p))) g
            = (Fatal, g\<lparr>calls := calls g @ [Call_Users_Get (user_Login (comment_User (Comment p)))]\<rparr>)"
      by (simp add: getNameForUser_def)
    from githubWebHook_lookup_fatal [OF ct act this] show "githubWebHook env
        \<lparr>gh_Method = ''POST'', gh_Event = ''issue_comment'', gh_Content_Type = ct, gh_Body = Json p\<rparr> g
          = (Process_Exit,
             g\<lparr>calls := calls g @ [Call_Users_Get (user_Login (comment_User (Comment p)))]\<rparr>)" .
  qed
next
  let ?m = "\<lparr>mail_from = author @ '' <bugs@usegalaxy.eu>'',
             mail_subject = ''Re: '' @ issue_Title (Issue p),
             mail_text = comment_Body (Comment p), mail_to = reply_to\<rparr>"
  show "strings_Contains ct ''json'' \<and> Action p = ''created''
      \<and> getNameForUser env (user_Login (comment_User (Comment p))) g = (Return author, g1)
      \<and> extractEmailFromIssue (issue_Body (Issue p)) = Some reply_to
      \<and> \<not> dryrun g
      \<and> Mg_Send env ?m = Err e
    \<longrightarrow> githubWebHook env \<lparr>gh_Method = ''POST'', gh_Event = ''issue_comment'',
             gh_Content_Type = ct, gh_Body = Json p\<rparr> g
          = (Process_Exit, g1\<lparr>calls := calls g1 @ [Call_Mg_Send ?m]\<rparr>)"
  proof (rule impI, elim conjE)
    assume ct: "strings_Contains ct ''json''" and act: "Action p = ''created''"
      and name: "getNameForUser env (user_Login (comment_User (Comment p))) g = (Return author, g1)"
      and addr: "extractEmailFromIssue (issue_Body (Issue p)) = Some reply_to"
      and wet: "\<not> dryrun g" and err: "Mg_Send env ?m = Err e"
    from getNameForUser_frame(1) [OF name] wet have "\<not> dryrun g1" by simp
    with err
    have "commentToEmail env author (issue_Title (Issue p)) (comment_Body (Comment p)) reply_to g1
            = (Fatal, g1\<lparr>calls := calls g1 @ [Call_Mg_Send ?m]\<rparr>)"
      by (simp add: commentToEmail_def Let_def)
    from githubWebHook_send [OF ct act name addr this]
    show "githubWebHook env \<lparr>gh_Method = ''POST'', gh_Event = ''issue_comment'',
             gh_Content_Type = ct, gh_Body = Json p\<rparr> g
          = (Process_Exit, g1\<lparr>calls := calls g1 @ [Call_Mg_Send ?m]\<rparr>)"
      by simp
  qed
qed

theorem provider_failure_outcomes_witness:
  "kv (started False) = None
   \<and> githubWebHook env_down (comment_request ''created'' 7) (started False)
     = (Process_Exit,
        (started False)\<lparr>calls := calls (started False) @ [Call_Users_Get ''alice'']\<rparr>)
   \<and> fst (githubWebHook env_no_mail (comment_request ''created'' 7) (started False))
       = Process_Exit"
proof -
  let ?p = "comment_payload ''created'' 7"
  have nil: "kv (started False) = None" by (simp add: started_def)
  have ct: "strings_Contains ''application/json'' ''json''" by (rule json_content_type)
  have act: "Action ?p = ''created''" by (simp add: comment_payload_def)
  have login: "user_Login (comment_User (Comment ?p)) = ''alice''"
    by (simp add: comment_payload_def)
  have miss: "gh_cache (started False) (user_Login (comment_User (Comment ?p))) = None"
    by (simp add: started_def)
  have down: "Users_Get env_down (user_Login (comment_User (Comment ?p))) = Err ''unavailable''"
    by (simp add: env_down_def)
  from provider_failure_outcomes [of "''application/json''" ?p "started False" env_down
      "''unavailable''", THEN conjunct1, rule_format,
      OF conjI [OF ct conjI [OF act conjI [OF miss down]]]]
  have a: "githubWebHook env_down (comment_request ''created'' 7) (started False)
     = (Process_Exit,
        (started False)\<lparr>calls := calls (started False) @ [Call_Users_Get ''alice'']\<rparr>)"
    unfolding comment_request_def login .
  have name: "getNameForUser env_no_mail (user_Login (comment_User (Comment ?p))) (started False)
            = (Return ''Alice A.'',
               \<lparr>gh_cache = [''alice'' \<mapsto> ''Alice A.''], dryrun = False,
                kv = None, calls = [Call_Users_Get ''alice''], errlog = []\<rparr>)"
    by (simp add: getNameForUser_def comment_payload_def started_def env_ok_def env_no_mail_def)
  have wet: "\<not> dryrun (started False)" by (simp add: started_def)
  have send: "Mg_Send env_no_mail \<lparr>mail_from = ''Alice A.'' @ '' <bugs@usegalaxy.eu>'',
             mail_subject = ''Re: '' @ issue_Title (Issue ?p),
             mail_text = comment_Body (Comment ?p), mail_to = ''a@x.org''\<rparr> = Err ''unavailable''"
    by (simp add: env_no_mail_def)
  from provider_failure_outcomes [of "''application/json''" ?p _ env_no_mail,
      THEN conjunct2, rule_format,
      OF conjI [OF ct conjI [OF act conjI [OF name conjI [OF payload_address conjI [OF wet send]]]]]]
  have b: "fst (githubWebHook env_no_mail (comment_request ''created'' 7) (started False))
             = Process_Exit"
    unfolding comment_request_def by simp
  from nil a b show ?thesis by blast
qed

end
